theory Spec2Isabelle
  imports Main "HOL-Library.Sublist"
begin

section \<open>The status/value pair of \<^verbatim>\<open>ctle/status_return.h\<close>\<close>

text \<open>
  The C++ initialiser \<^verbatim>\<open>= {}\<close> of a member value-initialises it. It is read here as
  the constant \<^const>\<open>default\<close> of the type class of the same name: \<^verbatim>\<open>false\<close> for
  \<^verbatim>\<open>bool\<close>, zero for an integer, the empty string for \<^verbatim>\<open>std::string\<close>.
\<close>

instantiation bool :: default
begin
definition default_bool :: bool where "default_bool = False"
instance ..
end

instantiation int :: default
begin
definition default_int :: int where "default_int = 0"
instance ..
end

instantiation list :: (type) default
begin
definition default_list :: "'a list" where "default_list = []"
instance ..
end

text \<open>
  The general class template \<^verbatim>\<open>status_return<_StatusType,_ValueType>\<close>: the two private
  members \<^verbatim>\<open>sstatus\<close> and \<^verbatim>\<open>svalue\<close>.
\<close>

record ('s, 'v) status_return =
  sstatus :: 's
  svalue :: 'v

text \<open>
  The partial specialisation \<^verbatim>\<open>status_return<_StatusType,void>\<close>: the status alone.
\<close>

record 's status_return_void =
  vstatus :: 's

text \<open>
  The public constructors of the general form, in the order of the header (lines 28 to 35).
  The constructor without arguments is deleted (line 25), so no function stands for it.
  Copying and moving a value are the same transfer of the value in this model: what is left
  in a moved-from object is not observed by any function below.
\<close>

definition status_return_copy_ctor :: "('s, 'v) status_return \<Rightarrow> ('s, 'v) status_return" where
  "status_return_copy_ctor other = \<lparr>sstatus = sstatus other, svalue = svalue other\<rparr>"

definition status_return_move_ctor :: "('s, 'v) status_return \<Rightarrow> ('s, 'v) status_return" where
  "status_return_move_ctor other = \<lparr>sstatus = sstatus other, svalue = svalue other\<rparr>"

definition status_return_from_status :: "'s \<Rightarrow> ('s, 'v::default) status_return" where
  "status_return_from_status s = \<lparr>sstatus = s, svalue = default\<rparr>"

definition status_return_from_status_value :: "'s \<Rightarrow> 'v \<Rightarrow> ('s, 'v) status_return" where
  "status_return_from_status_value s v = \<lparr>sstatus = s, svalue = v\<rparr>"

definition status_return_from_status_value_move :: "'s \<Rightarrow> 'v \<Rightarrow> ('s, 'v) status_return" where
  "status_return_from_status_value_move s v = \<lparr>sstatus = s, svalue = v\<rparr>"

definition status_return_from_value :: "'v \<Rightarrow> ('s::default, 'v) status_return" where
  "status_return_from_value v = \<lparr>sstatus = default, svalue = v\<rparr>"

definition status_return_from_value_move :: "'v \<Rightarrow> ('s::default, 'v) status_return" where
  "status_return_from_value_move v = \<lparr>sstatus = default, svalue = v\<rparr>"

text \<open>
  A constructor call of the general form, as data: one alternative for each public constructor,
  and \<open>construct\<close> runs the constructor that overload resolution has selected.
\<close>

datatype ('s, 'v) ctor_call =
  Copy "('s, 'v) status_return"
| Move "('s, 'v) status_return"
| From_status 's
| From_status_value 's 'v
| From_status_value_move 's 'v
| From_value 'v
| From_value_move 'v

fun construct :: "('s::default, 'v::default) ctor_call \<Rightarrow> ('s, 'v) status_return" where
  "construct (Copy other) = status_return_copy_ctor other"
| "construct (Move other) = status_return_move_ctor other"
| "construct (From_status s) = status_return_from_status s"
| "construct (From_status_value s v) = status_return_from_status_value s v"
| "construct (From_status_value_move s v) = status_return_from_status_value_move s v"
| "construct (From_value v) = status_return_from_value v"
| "construct (From_value_move v) = status_return_from_value_move v"

text \<open>The accessors \<^verbatim>\<open>status()\<close> and \<^verbatim>\<open>value()\<close> of the general form.\<close>

definition status :: "('s, 'v) status_return \<Rightarrow> 's" where
  "status r = sstatus r"

definition "value" :: "('s, 'v) status_return \<Rightarrow> 'v" where
  "value r = svalue r"

text \<open>
  The status type is a template parameter, and the two operators hand the status to the
  operators of that type. \<^verbatim>\<open>operator bool\<close> returns the status converted to \<^verbatim>\<open>bool\<close>: the
  conversion is the parameter \<open>truth\<close>. \<^verbatim>\<open>operator !\<close> returns \<^verbatim>\<open>!\<close> applied to the status:
  the \<^verbatim>\<open>!\<close> of the status type is the parameter \<open>bang\<close>. For \<^verbatim>\<open>bool\<close>, an integer, an
  enumeration or a class without an \<^verbatim>\<open>operator !\<close> of its own, \<open>bang\<close> is the negation of
  \<open>truth\<close>; a class may declare an \<^verbatim>\<open>operator !\<close> that is something else.
\<close>

definition operator_bool :: "('s \<Rightarrow> bool) \<Rightarrow> ('s, 'v) status_return \<Rightarrow> bool" where
  "operator_bool truth r = truth (sstatus r)"

definition operator_not :: "('s \<Rightarrow> bool) \<Rightarrow> ('s, 'v) status_return \<Rightarrow> bool" where
  "operator_not bang r = bang (sstatus r)"

text \<open>The status-only form: its constructors, operators and accessor (lines 60 to 70).\<close>

definition status_return_void_copy_ctor :: "'s status_return_void \<Rightarrow> 's status_return_void" where
  "status_return_void_copy_ctor other = \<lparr>vstatus = vstatus other\<rparr>"

definition status_return_void_move_ctor :: "'s status_return_void \<Rightarrow> 's status_return_void" where
  "status_return_void_move_ctor other = \<lparr>vstatus = vstatus other\<rparr>"

definition status_return_void_from_status :: "'s \<Rightarrow> 's status_return_void" where
  "status_return_void_from_status s = \<lparr>vstatus = s\<rparr>"

definition void_operator_bool :: "('s \<Rightarrow> bool) \<Rightarrow> 's status_return_void \<Rightarrow> bool" where
  "void_operator_bool truth r = truth (vstatus r)"

definition void_operator_not :: "('s \<Rightarrow> bool) \<Rightarrow> 's status_return_void \<Rightarrow> bool" where
  "void_operator_not bang r = bang (vstatus r)"

definition void_status :: "'s status_return_void \<Rightarrow> 's" where
  "void_status r = vstatus r"

section \<open>The collaborators of \<^verbatim>\<open>ctle/_macros.inl\<close>\<close>

text \<open>
  Modelled from the spec: the enumeration \<^verbatim>\<open>ctle::log_level\<close>, which the macro file uses
  and does not declare. The spec lists five severities, error, warning, info, debug and
  verbose, increasing numerically in that order.
\<close>

datatype log_level = error | warning | info | debug | verbose

fun log_level_rank :: "log_level \<Rightarrow> nat" where
  "log_level_rank error = 0"
| "log_level_rank warning = 1"
| "log_level_rank info = 2"
| "log_level_rank debug = 3"
| "log_level_rank verbose = 4"

definition log_level_le :: "log_level \<Rightarrow> log_level \<Rightarrow> bool" where
  "log_level_le a b = (log_level_rank a \<le> log_level_rank b)"

text \<open>
  The values of \<^verbatim>\<open>__FILE__\<close>, \<^verbatim>\<open>__LINE__\<close> and \<^verbatim>\<open>_CTLE_FUNCTION_SIGNATURE\<close> at the
  place where a macro is expanded.
\<close>

record call_site =
  site_file :: string
  site_line :: nat
  site_function :: string

record log_entry =
  entry_level :: log_level
  entry_file :: string
  entry_line :: nat
  entry_function :: string
  entry_message :: string

text \<open>
  The state a statement runs in: the process-wide log threshold, the entries the log has
  received so far, oldest first, and everything else the program can change.
\<close>

record 'u state =
  global_log_level :: log_level
  logged :: "log_entry list"
  user_state :: 'u

text \<open>
  Modelled from the spec: \<^verbatim>\<open>ctle::get_global_log_level\<close> and the class \<^verbatim>\<open>ctle::log_msg\<close>,
  which the macro file uses and does not declare. The spec gives the first as the query of the
  current threshold and the second as a log-entry constructor taking level, file, line and
  function signature, with a streaming \<^verbatim>\<open>message()\<close>. One \<^verbatim>\<open>log_msg\<close> object, from its
  construction to the end of its block, is one entry added to the log.
\<close>

definition get_global_log_level :: "'u state \<Rightarrow> log_level" where
  "get_global_log_level w = global_log_level w"

definition log_msg :: "log_level \<Rightarrow> string \<Rightarrow> nat \<Rightarrow> string \<Rightarrow> string \<Rightarrow> 'u state \<Rightarrow> 'u state" where
  "log_msg lvl file line func message w =
     w\<lparr>logged := logged w @
       [\<lparr>entry_level = lvl, entry_file = file, entry_line = line,
         entry_function = func, entry_message = message\<rparr>]\<rparr>"

text \<open>
  Modelled from the spec: the exceptions. \<^verbatim>\<open>ctle::status_error\<close> is constructed from a
  status; \<^verbatim>\<open>std::runtime_error\<close> carries its message.
\<close>

datatype 's exception = runtime_error string | status_error 's

text \<open>
  How a statement inside a function ends: control goes on to the next statement, the
  enclosing function returns a status, or an exception leaves the statement.
\<close>

datatype 's flow = is_continue: Continue | is_return: Return 's | is_throw: Throw "'s exception"

section \<open>The macros of \<^verbatim>\<open>ctle/_macros.inl\<close>\<close>

text \<open>
  A macro is a statement of the function it is expanded in: it takes the state before it to
  the way control leaves it and the state after it. An expression given to a macro is a
  function from the state in which it is evaluated to its result and the state it leaves, so
  that each evaluation shows in the state; the expressions considered are those that return.
  The text of an expression, which the operator \<^verbatim>\<open>#\<close> produces, is a separate argument.

  \<^verbatim>\<open>_CTLE_STRINGIZE(__LINE__)\<close>: the line number as its decimal digits.
\<close>

definition digit :: "nat \<Rightarrow> char" where
  "digit d = ''0123456789'' ! d"

fun stringize :: "nat \<Rightarrow> string" where
  "stringize n = (if n < 10 then [digit n] else stringize (n div 10) @ [digit (n mod 10)])"

text \<open>The equation of \<open>stringize\<close> is unfolded on demand only: as a rewrite rule it can be
  applied to its own right-hand side without end.\<close>

declare stringize.simps [simp del]

text \<open>
  \<^verbatim>\<open>ctLogLevel( msg_level ) << ... << ctLogEnd\<close>: the threshold test, the \<^verbatim>\<open>log_msg\<close> object
  at the site of the expansion, what is streamed into its message, then the empty string and
  the closing brace of \<^verbatim>\<open>ctLogEnd\<close>. The text streamed is the argument \<open>message\<close>.
\<close>

definition ctLogLevel :: "log_level \<Rightarrow> call_site \<Rightarrow> string \<Rightarrow> 'u state \<Rightarrow> 'u state" where
  "ctLogLevel msg_level site message w =
     (if log_level_le msg_level (get_global_log_level w)
      then log_msg msg_level (site_file site) (site_line site) (site_function site)
             (message @ []) w
      else w)"

definition ctLogError :: "call_site \<Rightarrow> string \<Rightarrow> 'u state \<Rightarrow> 'u state" where
  "ctLogError = ctLogLevel error"

definition ctLogWarning :: "call_site \<Rightarrow> string \<Rightarrow> 'u state \<Rightarrow> 'u state" where
  "ctLogWarning = ctLogLevel warning"

definition ctLogInfo :: "call_site \<Rightarrow> string \<Rightarrow> 'u state \<Rightarrow> 'u state" where
  "ctLogInfo = ctLogLevel info"

definition ctLogDebug :: "call_site \<Rightarrow> string \<Rightarrow> 'u state \<Rightarrow> 'u state" where
  "ctLogDebug = ctLogLevel debug"

definition ctLogVerbose :: "call_site \<Rightarrow> string \<Rightarrow> 'u state \<Rightarrow> 'u state" where
  "ctLogVerbose = ctLogLevel verbose"

text \<open>
  \<^verbatim>\<open>ctSanityCheck( statement )\<close>. \<open>ndebug\<close> tells whether \<^verbatim>\<open>NDEBUG\<close> is defined,
  \<open>statement_text\<close> is \<^verbatim>\<open>#statement\<close>, and \<open>statement\<close> is the expression itself, which
  may change the state when it is evaluated.
\<close>

definition ctSanityCheck ::
  "bool \<Rightarrow> call_site \<Rightarrow> string \<Rightarrow> ('u state \<Rightarrow> bool \<times> 'u state) \<Rightarrow> 'u state \<Rightarrow> 's flow \<times> 'u state" where
  "ctSanityCheck ndebug site statement_text statement w =
     (if \<not> ndebug then
        (case statement w of (holds, w1) \<Rightarrow>
           if \<not> holds then
             (let w2 = ctLogError site (''SanityCheck failed: '' @ statement_text) w1;
                  err_val = ''SanityCheck '' @ statement_text @ '' failed in '' @ site_file site
                    @ '' line '' @ stringize (site_line site) @ '' function '' @ site_function site
              in (Throw (runtime_error err_val), w2))
           else (Continue, w1))
      else (Continue, w))"

text \<open>
  \<^verbatim>\<open>ctStatusCall( s )\<close>. The status type is \<^verbatim>\<open>ctle::status\<close>, which the macro file does not
  declare: its conversion to \<^verbatim>\<open>bool\<close> is the parameter \<open>truth\<close> and its output operator the
  parameter \<open>render\<close>. \<open>s_text\<close> is \<^verbatim>\<open>#s\<close>, and \<open>s\<close> is the call expression.
\<close>

definition ctStatusCall ::
  "('s \<Rightarrow> bool) \<Rightarrow> ('s \<Rightarrow> string) \<Rightarrow> call_site \<Rightarrow> string \<Rightarrow> ('u state \<Rightarrow> 's \<times> 'u state)
     \<Rightarrow> 'u state \<Rightarrow> 's flow \<times> 'u state" where
  "ctStatusCall truth render site s_text s w =
     (case s w of (call_status, w1) \<Rightarrow>
        if \<not> truth call_status then
          (let w2 = ctLogError site
                 (''Call: '' @ s_text @ '' failed, returned status_code: '' @ render call_status) w1
           in (Return call_status, w2))
        else (Continue, w1))"

text \<open>
  \<^verbatim>\<open>ctStatusReturnCall( retval , scall )\<close>. \<open>retval\<close> is the content of the receiving
  variable before the statement; its content after the statement is the second component of
  the result.
\<close>

definition ctStatusReturnCall ::
  "('s \<Rightarrow> bool) \<Rightarrow> ('s \<Rightarrow> string) \<Rightarrow> call_site \<Rightarrow> string
     \<Rightarrow> ('u state \<Rightarrow> ('s, 'v) status_return \<times> 'u state) \<Rightarrow> 'v \<Rightarrow> 'u state
     \<Rightarrow> 's flow \<times> 'v \<times> 'u state" where
  "ctStatusReturnCall truth render site scall_text scall retval w =
     (case scall w of (call_statuspair, w1) \<Rightarrow>
        if \<not> truth (status call_statuspair) then
          (let w2 = ctLogError site
                 (''Call: '' @ scall_text @ '' failed, returned status_code: ''
                    @ render (status call_statuspair)) w1
           in (Return (status call_statuspair), retval, w2))
        else (Continue, value call_statuspair, w1))"

text \<open>\<^verbatim>\<open>ctStatusCallThrow( s )\<close>, with the parameters of \<open>ctStatusCall\<close>.\<close>

definition ctStatusCallThrow ::
  "('s \<Rightarrow> bool) \<Rightarrow> ('s \<Rightarrow> string) \<Rightarrow> call_site \<Rightarrow> string \<Rightarrow> ('u state \<Rightarrow> 's \<times> 'u state)
     \<Rightarrow> 'u state \<Rightarrow> 's flow \<times> 'u state" where
  "ctStatusCallThrow truth render site s_text s w =
     (case s w of (call_status, w1) \<Rightarrow>
        if \<not> truth call_status then
          (let w2 = ctLogError site
                 (''Call: '' @ s_text @ '' failed, returned status_code: '' @ render call_status
                    @ '', throwing a status_error exception'') w1
           in (Throw (status_error call_status), w2))
        else (Continue, w1))"

section \<open>Vocabulary of the statements\<close>

text \<open>
  The entry a log statement at \<open>site\<close> writes, and a state with entries added at the end of
  its log.
\<close>

definition site_entry :: "log_level \<Rightarrow> call_site \<Rightarrow> string \<Rightarrow> log_entry" where
  "site_entry lvl site message =
     \<lparr>entry_level = lvl, entry_file = site_file site, entry_line = site_line site,
      entry_function = site_function site, entry_message = message\<rparr>"

definition add_entry :: "log_entry \<Rightarrow> 'u state \<Rightarrow> 'u state" where
  "add_entry e w = w\<lparr>logged := logged w @ [e]\<rparr>"

definition add_entries :: "log_entry list \<Rightarrow> 'u state \<Rightarrow> 'u state" where
  "add_entries es w = w\<lparr>logged := logged w @ es\<rparr>"

text \<open>
  What the caller of a constructor hands over: the status, if the constructor takes one (or an
  object to copy or move from), and the value likewise.
\<close>

fun given_status :: "('s, 'v) ctor_call \<Rightarrow> 's option" where
  "given_status (Copy other) = Some (sstatus other)"
| "given_status (Move other) = Some (sstatus other)"
| "given_status (From_status s) = Some s"
| "given_status (From_status_value s v) = Some s"
| "given_status (From_status_value_move s v) = Some s"
| "given_status (From_value v) = None"
| "given_status (From_value_move v) = None"

fun given_value :: "('s, 'v) ctor_call \<Rightarrow> 'v option" where
  "given_value (Copy other) = Some (svalue other)"
| "given_value (Move other) = Some (svalue other)"
| "given_value (From_status s) = None"
| "given_value (From_status_value s v) = Some v"
| "given_value (From_status_value_move s v) = Some v"
| "given_value (From_value v) = Some v"
| "given_value (From_value_move v) = Some v"

text \<open>
  The number a text of decimal digits denotes, read from the left: what a reader of the
  message takes the line number to be.
\<close>

definition digit_value :: "char \<Rightarrow> nat" where
  "digit_value c = of_char c - 48"

definition decimal_value :: "string \<Rightarrow> nat" where
  "decimal_value digits = foldl (\<lambda>acc c. 10 * acc + digit_value c) 0 digits"

section \<open>Example programs\<close>

text \<open>
  A call site, a starting state whose user part counts the calls made, and operations that
  count themselves and return a \<^verbatim>\<open>bool\<close> status, alone or paired with an \<^verbatim>\<open>int\<close>.
  A \<^verbatim>\<open>bool\<close> status converts to itself and is printed as \<^verbatim>\<open>0\<close> or \<^verbatim>\<open>1\<close>.
\<close>

definition here :: call_site where
  "here = \<lparr>site_file = ''main.cpp'', site_line = 42, site_function = ''int run()''\<rparr>"

definition start :: "nat state" where
  "start = \<lparr>global_log_level = warning, logged = [], user_state = 0\<rparr>"

definition render_bool :: "bool \<Rightarrow> string" where
  "render_bool b = (if b then ''1'' else ''0'')"

definition failing_call :: "nat state \<Rightarrow> bool \<times> nat state" where
  "failing_call w = (False, w\<lparr>user_state := Suc (user_state w)\<rparr>)"

definition succeeding_call :: "nat state \<Rightarrow> bool \<times> nat state" where
  "succeeding_call w = (True, w\<lparr>user_state := Suc (user_state w)\<rparr>)"

definition answer_call :: "nat state \<Rightarrow> (bool, int) status_return \<times> nat state" where
  "answer_call w =
     (status_return_from_status_value True 42, w\<lparr>user_state := Suc (user_state w)\<rparr>)"

definition refusing_call :: "nat state \<Rightarrow> (bool, int) status_return \<times> nat state" where
  "refusing_call w = (status_return_from_status False, w\<lparr>user_state := Suc (user_state w)\<rparr>)"

definition false_statement :: "nat state \<Rightarrow> bool \<times> nat state" where
  "false_statement w = (False, w\<lparr>user_state := Suc (user_state w)\<rparr>)"

text \<open>
  An integer status converts to true when it is not zero, and its built-in \<^verbatim>\<open>!\<close> is true when
  it is zero. The operators of a trivially copyable class that wraps an integer and declares
  both operators itself, the conversion as "not zero" and \<^verbatim>\<open>!\<close> as "odd":
  \<^verbatim>\<open>struct odd_status { int v; operator bool() const { return v != 0; }
    bool operator!() const { return v % 2 != 0; } };\<close>
\<close>

definition int_bool :: "int \<Rightarrow> bool" where
  "int_bool n = (n \<noteq> 0)"

definition int_not :: "int \<Rightarrow> bool" where
  "int_not n = (n = 0)"

definition odd_status_bool :: "int \<Rightarrow> bool" where
  "odd_status_bool v = (v \<noteq> 0)"

definition odd_status_not :: "int \<Rightarrow> bool" where
  "odd_status_not v = (v mod 2 \<noteq> 0)"

section \<open>Facts about logging and construction\<close>

lemma ctLogLevel_enabled:
  "log_level_le lvl (get_global_log_level w) \<Longrightarrow>
   ctLogLevel lvl site message w = add_entry (site_entry lvl site message) w"
  by (simp add: ctLogLevel_def log_msg_def add_entry_def site_entry_def)

lemma ctLogLevel_disabled:
  "\<not> log_level_le lvl (get_global_log_level w) \<Longrightarrow> ctLogLevel lvl site message w = w"
  by (simp add: ctLogLevel_def)

text \<open>Error is the least of the five levels, so an error statement always writes.\<close>

lemma error_always_enabled: "log_level_le error lvl"
  by (simp add: log_level_le_def)

lemma ctLogError_adds:
  "ctLogError site message w = add_entry (site_entry error site message) w"
  by (simp add: ctLogError_def ctLogLevel_enabled error_always_enabled)

lemma construct_status:
  "status (construct c) = (case given_status c of Some s \<Rightarrow> s | None \<Rightarrow> default)"
  by (cases c)
     (simp_all add: status_def status_return_copy_ctor_def status_return_move_ctor_def
        status_return_from_status_def status_return_from_status_value_def
        status_return_from_status_value_move_def status_return_from_value_def
        status_return_from_value_move_def)

lemma construct_value:
  "value (construct c) = (case given_value c of Some v \<Rightarrow> v | None \<Rightarrow> default)"
  by (cases c)
     (simp_all add: value_def status_return_copy_ctor_def status_return_move_ctor_def
        status_return_from_status_def status_return_from_status_value_def
        status_return_from_status_value_move_def status_return_from_value_def
        status_return_from_value_move_def)

lemma construct_given: "\<not> (given_status c = None \<and> given_value c = None)"
  by (cases c) simp_all

section \<open>The decimal text of a line number\<close>

lemma below_ten:
  "d < 10 \<Longrightarrow>
   d = 0 \<or> d = 1 \<or> d = 2 \<or> d = 3 \<or> d = 4 \<or> d = 5 \<or> d = 6 \<or> d = 7 \<or> d = 8 \<or> d = (9::nat)"
  by arith

lemma digit_value_digit: "d < 10 \<Longrightarrow> digit_value (digit d) = d"
  using below_ten [of d] by (auto simp: digit_def digit_value_def)

lemma digit_is_decimal: "d < 10 \<Longrightarrow> digit d \<in> set ''0123456789''"
  using below_ten [of d] by (auto simp: digit_def)

lemma digit_zero: "d < 10 \<Longrightarrow> (digit d = CHR ''0'') = (d = 0)"
  using below_ten [of d] by (auto simp: digit_def)

lemma decimal_value_snoc:
  "decimal_value (digits @ [c]) = 10 * decimal_value digits + digit_value c"
  by (simp add: decimal_value_def)

text \<open>Read back as a decimal numeral, the text of a number is that number.\<close>

lemma stringize_decimal: "decimal_value (stringize n) = n"
proof (induction n rule: stringize.induct)
  case (1 n)
  show ?case
  proof (cases "n < 10")
    case True
    then show ?thesis
      by (simp add: stringize.simps [of n] decimal_value_def digit_value_digit)
  next
    case False
    then have "decimal_value (stringize n) = 10 * (n div 10) + n mod 10"
      using "1.IH" by (simp add: stringize.simps [of n] decimal_value_snoc digit_value_digit)
    then show ?thesis by simp
  qed
qed

lemma stringize_digits: "set (stringize n) \<subseteq> set ''0123456789''"
proof (induction n rule: stringize.induct)
  case (1 n)
  show ?case
  proof (cases "n < 10")
    case True
    then show ?thesis
      using digit_is_decimal [of n] by (simp add: stringize.simps [of n])
  next
    case False
    then show ?thesis
      using "1.IH" digit_is_decimal [of "n mod 10"] by (simp add: stringize.simps [of n])
  qed
qed

lemma stringize_nonempty: "stringize n \<noteq> []"
  by (simp add: stringize.simps [of n])

lemma stringize_no_leading_zero: "0 < n \<Longrightarrow> hd (stringize n) \<noteq> CHR ''0''"
proof (induction n rule: stringize.induct)
  case (1 n)
  show ?case
  proof (cases "n < 10")
    case True
    then show ?thesis
      using "1.prems" digit_zero [of n] by (simp add: stringize.simps [of n])
  next
    case False
    then have "0 < n div 10" by simp
    with False "1.IH" have "hd (stringize (n div 10)) \<noteq> CHR ''0''" by simp
    then show ?thesis
      using False stringize_nonempty [of "n div 10"] by (simp add: stringize.simps [of n])
  qed
qed

section \<open>Construction and the accessors\<close>

text \<open>
  Claim C1. A pair constructed from a status \<open>s\<close> and a value \<open>v\<close>, by the copying or by
  the moving constructor, gives back exactly \<open>s\<close> from \<^verbatim>\<open>status()\<close> and exactly \<open>v\<close>
  from \<^verbatim>\<open>value()\<close>, for every status type and every value type.
\<close>

theorem status_value_roundtrip:
  "status (status_return_from_status_value s v) = s
   \<and> value (status_return_from_status_value s v) = v
   \<and> status (status_return_from_status_value_move s v) = s
   \<and> value (status_return_from_status_value_move s v) = v"
  by (simp add: status_def value_def status_return_from_status_value_def
      status_return_from_status_value_move_def)

theorem status_value_roundtrip_witness:
  "status (status_return_from_status_value True (42::int)) = True
   \<and> value (status_return_from_status_value True (42::int)) = 42"
  using status_value_roundtrip [of True "42::int"] by simp

text \<open>
  Claim C4. A pair constructed from a status alone has the default value as its value, and a
  pair constructed from a value alone (copied or moved) has the default status as its status.
  Whatever public constructor is called, the status of the new object is the one handed over,
  or the default when none was, and so is its value: no part is left without a content. Every
  public constructor is handed a status or a value: there is none without arguments.
\<close>

theorem bare_construction_defaults:
  "status (status_return_from_status s :: ('s, 'v::default) status_return) = s
   \<and> value (status_return_from_status s :: ('s, 'v::default) status_return) = default
   \<and> status (status_return_from_value v :: ('t::default, 'w) status_return) = default
   \<and> value (status_return_from_value v :: ('t::default, 'w) status_return) = v
   \<and> status (status_return_from_value_move v :: ('t::default, 'w) status_return) = default
   \<and> value (status_return_from_value_move v :: ('t::default, 'w) status_return) = v
   \<and> status (construct c) = (case given_status c of Some s' \<Rightarrow> s' | None \<Rightarrow> default)
   \<and> value (construct c) = (case given_value c of Some v' \<Rightarrow> v' | None \<Rightarrow> default)
   \<and> \<not> (given_status c = None \<and> given_value c = None)"
  by (simp add: construct_status construct_value construct_given)
     (simp add: status_def value_def status_return_from_status_def status_return_from_value_def
        status_return_from_value_move_def)

theorem bare_construction_defaults_witness:
  "value (status_return_from_status False :: (bool, int) status_return) = 0
   \<and> status (status_return_from_value (42::int) :: (bool, int) status_return) = False
   \<and> status (status_return_from_value_move ''abc'' :: (int, string) status_return) = 0
   \<and> value (construct (From_status (5::int)) :: (int, string) status_return) = []"
  using bare_construction_defaults [of False "42::int" "From_status (5::int) :: (int, string) ctor_call",
      where ?'v = int and ?'t = bool]
    bare_construction_defaults [of False "''abc''" "From_status (5::int) :: (int, string) ctor_call",
      where ?'v = int and ?'t = int]
  by (simp add: default_bool_def default_int_def default_list_def)

text \<open>
  Claim C5, as stated: in both forms the conversion of the pair to \<^verbatim>\<open>bool\<close> is the conversion
  of its status, and \<^verbatim>\<open>operator !\<close> is the negation of that boolean. The second half fails
  for a status type whose own \<^verbatim>\<open>!\<close> is not the negation of its conversion: with the status
  \<^verbatim>\<open>odd_status{3}\<close> the pair converts to true and \<^verbatim>\<open>!\<close> of the pair is true as well, in the
  general and in the status-only form.
\<close>

theorem negation_of_odd_status_counterexample:
  "operator_bool odd_status_bool (status_return_from_status_value (3::int) ''x'')
   \<and> operator_not odd_status_not (status_return_from_status_value (3::int) ''x'')
   \<and> \<not> (operator_not odd_status_not (status_return_from_status_value (3::int) ''x'')
          = (\<not> operator_bool odd_status_bool (status_return_from_status_value (3::int) ''x'')))
   \<and> \<not> (void_operator_not odd_status_not (status_return_void_from_status (3::int))
          = (\<not> void_operator_bool odd_status_bool (status_return_void_from_status (3::int))))"
  by (simp add: operator_bool_def operator_not_def void_operator_bool_def void_operator_not_def
      status_return_from_status_value_def status_return_void_from_status_def
      odd_status_bool_def odd_status_not_def)

text \<open>
  Claim C5, amended. In the general and in the status-only form, the conversion of the pair to
  \<^verbatim>\<open>bool\<close> is the conversion of its status, and \<^verbatim>\<open>operator !\<close> of the pair is the \<^verbatim>\<open>!\<close> of
  the status type applied to its status. Whenever the \<^verbatim>\<open>!\<close> of the status type is the negation
  of its conversion, \<^verbatim>\<open>operator !\<close> of the pair is the negation of the pair's conversion,
  whether the status converts to true or to false.
\<close>

theorem bool_conversion_delegates:
  "operator_bool truth r = truth (status r)
   \<and> operator_not bang r = bang (status r)
   \<and> ((\<forall>s. bang s = (\<not> truth s)) \<longrightarrow> operator_not bang r = (\<not> operator_bool truth r))
   \<and> void_operator_bool truth' q = truth' (void_status q)
   \<and> void_operator_not bang' q = bang' (void_status q)
   \<and> ((\<forall>s. bang' s = (\<not> truth' s)) \<longrightarrow>
        void_operator_not bang' q = (\<not> void_operator_bool truth' q))"
  by (simp add: operator_bool_def operator_not_def status_def void_operator_bool_def
      void_operator_not_def void_status_def)

theorem bool_conversion_delegates_witness:
  "operator_bool int_bool (status_return_from_status_value (3::int) ''x'')
   \<and> \<not> operator_not int_not (status_return_from_status_value (3::int) ''x'')
   \<and> \<not> operator_bool int_bool (status_return_from_status_value (0::int) ''x'')
   \<and> operator_not int_not (status_return_from_status_value (0::int) ''x'')
   \<and> void_operator_bool id (status_return_void_from_status True)
   \<and> \<not> void_operator_not Not (status_return_void_from_status True)
   \<and> \<not> void_operator_bool id (status_return_void_from_status False)
   \<and> void_operator_not Not (status_return_void_from_status False)"
proof -
  have int_agree: "\<forall>s. int_not s = (\<not> int_bool s)"
    by (simp add: int_not_def int_bool_def)
  have bool_agree: "\<forall>s. Not s = (\<not> id s)"
    by simp
  show ?thesis
    using int_agree bool_agree
      bool_conversion_delegates [of int_bool "status_return_from_status_value (3::int) ''x''"
        int_not id "status_return_void_from_status True" Not]
      bool_conversion_delegates [of int_bool "status_return_from_status_value (0::int) ''x''"
        int_not id "status_return_void_from_status False" Not]
    by (simp add: status_def void_status_def status_return_from_status_value_def
        status_return_void_from_status_def int_bool_def int_not_def)
qed

section \<open>The log statements\<close>

text \<open>
  Claim C8. A log statement of any of the five levels writes its entry when its level is less
  than or equal to the current global threshold, and leaves the state as it was when it is
  not: the log changes exactly when the level is enabled. The five named macros are the
  statement at their level.
\<close>

theorem ctLogLevel_threshold:
  "(log_level_le msg_level (get_global_log_level w) \<longrightarrow>
      ctLogLevel msg_level site message w = add_entry (site_entry msg_level site message) w)
   \<and> (\<not> log_level_le msg_level (get_global_log_level w) \<longrightarrow>
      ctLogLevel msg_level site message w = w)
   \<and> (logged (ctLogLevel msg_level site message w) \<noteq> logged w)
       = log_level_le msg_level (get_global_log_level w)
   \<and> ctLogError site message w = ctLogLevel error site message w
   \<and> ctLogWarning site message w = ctLogLevel warning site message w
   \<and> ctLogInfo site message w = ctLogLevel info site message w
   \<and> ctLogDebug site message w = ctLogLevel debug site message w
   \<and> ctLogVerbose site message w = ctLogLevel verbose site message w"
  by (cases "log_level_le msg_level (get_global_log_level w)")
     (simp_all add: ctLogLevel_enabled ctLogLevel_disabled add_entry_def ctLogError_def
        ctLogWarning_def ctLogInfo_def ctLogDebug_def ctLogVerbose_def)

theorem ctLogLevel_threshold_witness:
  "logged (ctLogWarning here ''w'' start) = [site_entry warning here ''w'']
   \<and> logged (ctLogError here ''e'' start) = [site_entry error here ''e'']
   \<and> ctLogInfo here ''i'' start = start
   \<and> ctLogDebug here ''d'' start = start
   \<and> ctLogVerbose here ''v'' start = start"
  using ctLogLevel_threshold [of warning start here "''w''"]
    ctLogLevel_threshold [of error start here "''e''"]
    ctLogLevel_threshold [of info start here "''i''"]
    ctLogLevel_threshold [of debug start here "''d''"]
    ctLogLevel_threshold [of verbose start here "''v''"]
  by (simp add: log_level_le_def get_global_log_level_def start_def add_entry_def)

section \<open>The debug-only check\<close>

text \<open>
  Claim C7. In a debug build (\<^verbatim>\<open>NDEBUG\<close> not defined), a checked expression that evaluates
  to false makes the statement write one error entry and throw a runtime error, whose message
  contains the text of the expression, the file, the line number and the signature of the
  enclosing function. The line number stands in the message as its decimal numeral: a text of
  decimal digits that denotes the line, without a leading zero. In a release build the
  statement does nothing: control goes on and the state is the one before the statement, so
  the expression has not been evaluated.
\<close>

theorem ctSanityCheck_debug_release:
  "(statement w = (False, w1) \<longrightarrow>
      (ctSanityCheck False site statement_text statement w :: 's flow \<times> 'u state) =
        (Throw (runtime_error
           (''SanityCheck '' @ statement_text @ '' failed in '' @ site_file site @ '' line ''
              @ stringize (site_line site) @ '' function '' @ site_function site)),
         add_entry (site_entry error site (''SanityCheck failed: '' @ statement_text)) w1)
      \<and> sublist statement_text
            (''SanityCheck '' @ statement_text @ '' failed in '' @ site_file site @ '' line ''
               @ stringize (site_line site) @ '' function '' @ site_function site)
      \<and> sublist (site_file site)
            (''SanityCheck '' @ statement_text @ '' failed in '' @ site_file site @ '' line ''
               @ stringize (site_line site) @ '' function '' @ site_function site)
      \<and> sublist (stringize (site_line site))
            (''SanityCheck '' @ statement_text @ '' failed in '' @ site_file site @ '' line ''
               @ stringize (site_line site) @ '' function '' @ site_function site)
      \<and> sublist (site_function site)
            (''SanityCheck '' @ statement_text @ '' failed in '' @ site_file site @ '' line ''
               @ stringize (site_line site) @ '' function '' @ site_function site))
   \<and> decimal_value (stringize (site_line site)) = site_line site
   \<and> set (stringize (site_line site)) \<subseteq> set ''0123456789''
   \<and> stringize (site_line site) \<noteq> []
   \<and> (0 < site_line site \<longrightarrow> hd (stringize (site_line site)) \<noteq> CHR ''0'')
   \<and> (ctSanityCheck True site statement_text statement w :: 's flow \<times> 'u state) = (Continue, w)"
proof -
  let ?head = "''SanityCheck '' @ statement_text @ '' failed in ''"
  let ?line = "stringize (site_line site)"
  let ?msg = "''SanityCheck '' @ statement_text @ '' failed in '' @ site_file site @ '' line ''
              @ ?line @ '' function '' @ site_function site"
  have release:
    "(ctSanityCheck True site statement_text statement w :: 's flow \<times> 'u state) = (Continue, w)"
    by (simp add: ctSanityCheck_def)
  have text_part: "sublist statement_text ?msg"
    unfolding sublist_def
    by (rule exI [of _ "''SanityCheck ''"], rule exI, rule refl)
  have "?msg = ?head @ site_file site @ ('' line '' @ ?line @ '' function '' @ site_function site)"
    by simp
  then have file_part: "sublist (site_file site) ?msg"
    unfolding sublist_def by blast
  have "?msg = (?head @ site_file site @ '' line '') @ ?line @ ('' function '' @ site_function site)"
    by simp
  then have line_part: "sublist ?line ?msg"
    unfolding sublist_def by blast
  have "?msg = (?head @ site_file site @ '' line '' @ ?line @ '' function '') @ site_function site @ []"
    by simp
  then have function_part: "sublist (site_function site) ?msg"
    unfolding sublist_def by blast
  have debug:
    "(ctSanityCheck False site statement_text statement w :: 's flow \<times> 'u state) =
        (Throw (runtime_error ?msg),
         add_entry (site_entry error site (''SanityCheck failed: '' @ statement_text)) w1)"
    if "statement w = (False, w1)"
    using that by (simp add: ctSanityCheck_def ctLogError_adds)
  have numeral: "decimal_value ?line = site_line site" "set ?line \<subseteq> set ''0123456789''"
    "?line \<noteq> []" "0 < site_line site \<longrightarrow> hd ?line \<noteq> CHR ''0''"
    using stringize_decimal [of "site_line site"] stringize_digits [of "site_line site"]
      stringize_nonempty [of "site_line site"] stringize_no_leading_zero [of "site_line site"]
    by blast+
  show ?thesis
    using release text_part file_part line_part function_part debug numeral by blast
qed

theorem ctSanityCheck_debug_release_witness:
  "(ctSanityCheck False here ''false'' false_statement start :: bool flow \<times> nat state) =
     (Throw (runtime_error ''SanityCheck false failed in main.cpp line 42 function int run()''),
      \<lparr>global_log_level = warning,
       logged = [\<lparr>entry_level = error, entry_file = ''main.cpp'', entry_line = 42,
                  entry_function = ''int run()'',
                  entry_message = ''SanityCheck failed: false''\<rparr>],
       user_state = 1\<rparr>)
   \<and> fst (ctSanityCheck False (here\<lparr>site_line := 7\<rparr>) ''n > 0'' false_statement start
          :: bool flow \<times> nat state) =
       Throw (runtime_error ''SanityCheck n > 0 failed in main.cpp line 7 function int run()'')
   \<and> fst (ctSanityCheck False (here\<lparr>site_line := 100\<rparr>) ''n > 0'' false_statement start
          :: bool flow \<times> nat state) =
       Throw (runtime_error ''SanityCheck n > 0 failed in main.cpp line 100 function int run()'')
   \<and> fst (ctSanityCheck False (here\<lparr>site_line := 1234\<rparr>) ''n > 0'' false_statement start
          :: bool flow \<times> nat state) =
       Throw (runtime_error ''SanityCheck n > 0 failed in main.cpp line 1234 function int run()'')
   \<and> (ctSanityCheck True here ''false'' false_statement start :: bool flow \<times> nat state) =
     (Continue, \<lparr>global_log_level = warning, logged = [], user_state = 0\<rparr>)"
  using ctSanityCheck_debug_release [of false_statement start "start\<lparr>user_state := 1\<rparr>" here
      "''false''", where ?'s = bool]
    ctSanityCheck_debug_release [of false_statement start "start\<lparr>user_state := 1\<rparr>"
      "here\<lparr>site_line := 7\<rparr>" "''n > 0''", where ?'s = bool]
    ctSanityCheck_debug_release [of false_statement start "start\<lparr>user_state := 1\<rparr>"
      "here\<lparr>site_line := 100\<rparr>" "''n > 0''", where ?'s = bool]
    ctSanityCheck_debug_release [of false_statement start "start\<lparr>user_state := 1\<rparr>"
      "here\<lparr>site_line := 1234\<rparr>" "''n > 0''", where ?'s = bool]
  by (simp add: false_statement_def start_def here_def add_entry_def site_entry_def digit_def
      stringize.simps)

section \<open>The propagation macros\<close>

text \<open>
  Claim C2. Let the operation invoked by \<^verbatim>\<open>ctStatusCall\<close> return the status \<open>st\<close> and leave
  the state \<open>w1\<close>. If \<open>st\<close> converts to false, the enclosing function returns exactly \<open>st\<close>
  and exactly one entry, an error entry, is added to the log. If \<open>st\<close> converts to true, control
  goes on past the macro and nothing is added to the log.
\<close>

theorem ctStatusCall_propagates:
  assumes "s w = (st, w1)"
  shows "(\<not> truth st \<longrightarrow>
            ctStatusCall truth render site s_text s w =
              (Return st,
               add_entry (site_entry error site
                 (''Call: '' @ s_text @ '' failed, returned status_code: '' @ render st)) w1))
         \<and> (truth st \<longrightarrow> ctStatusCall truth render site s_text s w = (Continue, w1))"
  using assms by (simp add: ctStatusCall_def ctLogError_adds)

theorem ctStatusCall_propagates_witness:
  "ctStatusCall id render_bool here ''f()'' failing_call start =
     (Return False,
      \<lparr>global_log_level = warning,
       logged = [\<lparr>entry_level = error, entry_file = ''main.cpp'', entry_line = 42,
                  entry_function = ''int run()'',
                  entry_message = ''Call: f() failed, returned status_code: 0''\<rparr>],
       user_state = 1\<rparr>)
   \<and> ctStatusCall id render_bool here ''f()'' succeeding_call start =
     (Continue, \<lparr>global_log_level = warning, logged = [], user_state = 1\<rparr>)"
  using ctStatusCall_propagates [of failing_call start False "start\<lparr>user_state := 1\<rparr>" id
      render_bool here "''f()''"]
    ctStatusCall_propagates [of succeeding_call start True "start\<lparr>user_state := 1\<rparr>" id
      render_bool here "''f()''"]
  by (simp add: failing_call_def succeeding_call_def start_def here_def render_bool_def
      add_entry_def site_entry_def)



text \<open>
  Claim C6. Let the operation invoked by \<^verbatim>\<open>ctStatusCallThrow\<close> return a status \<open>st\<close> that
  converts to false. Then one error entry is written, whose message says that an exception is
  thrown, and a \<^verbatim>\<open>status_error\<close> carrying \<open>st\<close> is thrown: the statement does not return a
  status. The same operation under \<^verbatim>\<open>ctStatusCall\<close> makes the enclosing function return
  \<open>st\<close> and throws nothing, and \<^verbatim>\<open>ctStatusReturnCall\<close> never throws either: which of the two
  ways a failure takes depends on the macro alone.
\<close>

theorem ctStatusCallThrow_raises:
  assumes "s w = (st, w1)" and "\<not> truth st"
  shows "ctStatusCallThrow truth render site s_text s w =
           (Throw (status_error st),
            add_entry (site_entry error site
              (''Call: '' @ s_text @ '' failed, returned status_code: '' @ render st
                 @ '', throwing a status_error exception'')) w1)
         \<and> fst (ctStatusCall truth render site s_text s w) = Return st
         \<and> \<not> is_return (fst (ctStatusCallThrow truth render site s_text s w))
         \<and> \<not> is_throw (fst (ctStatusCall truth render site s_text s w))
         \<and> \<not> is_throw (fst (ctStatusReturnCall truth' render' site' scall_text scall retval w'))"
proof -
  have thrown: "ctStatusCallThrow truth render site s_text s w =
           (Throw (status_error st),
            add_entry (site_entry error site
              (''Call: '' @ s_text @ '' failed, returned status_code: '' @ render st
                 @ '', throwing a status_error exception'')) w1)"
    using assms by (simp add: ctStatusCallThrow_def ctLogError_adds)
  have returned: "fst (ctStatusCall truth render site s_text s w) = Return st"
    using assms by (simp add: ctStatusCall_def)
  have no_throw:
    "\<not> is_throw (fst (ctStatusReturnCall truth' render' site' scall_text scall retval w'))"
    by (simp add: ctStatusReturnCall_def split: prod.split)
  from thrown returned no_throw show ?thesis by simp
qed

theorem ctStatusCallThrow_raises_witness:
  "ctStatusCallThrow id render_bool here ''f()'' failing_call start =
     (Throw (status_error False),
      \<lparr>global_log_level = warning,
       logged = [\<lparr>entry_level = error, entry_file = ''main.cpp'', entry_line = 42,
                  entry_function = ''int run()'',
                  entry_message =
                    ''Call: f() failed, returned status_code: 0, throwing a status_error exception''\<rparr>],
       user_state = 1\<rparr>)
   \<and> fst (ctStatusCall id render_bool here ''f()'' failing_call start) = Return False"
  using ctStatusCallThrow_raises [where s = failing_call and w = start and st = False
      and ?w1.0 = "start\<lparr>user_state := 1\<rparr>" and truth = id and render = render_bool
      and site = here and s_text = "''f()''" and truth' = id and render' = render_bool
      and site' = here and scall_text = "''g()''" and scall = refusing_call and retval = 7
      and w' = start]
  by (simp add: failing_call_def start_def here_def render_bool_def add_entry_def site_entry_def)

text \<open>
  Claim C10. Each of \<^verbatim>\<open>ctStatusCall\<close>, \<^verbatim>\<open>ctStatusReturnCall\<close> and \<^verbatim>\<open>ctStatusCallThrow\<close>
  evaluates its call expression exactly once, whether the call succeeds or fails: the state
  after the statement is the state that one evaluation of the call leaves, with at most one
  log entry added by the macro itself.
\<close>

theorem propagation_evaluates_once:
  "(\<exists>es. snd (ctStatusCall truth render site s_text s w)
            = add_entries es (snd (s w)) \<and> length es \<le> 1)
   \<and> (\<exists>es. snd (snd (ctStatusReturnCall truth render site scall_text scall retval w))
            = add_entries es (snd (scall w)) \<and> length es \<le> 1)
   \<and> (\<exists>es. snd (ctStatusCallThrow truth render site s_text s w)
            = add_entries es (snd (s w)) \<and> length es \<le> 1)"
proof -
  obtain st w1 where run: "s w = (st, w1)"
    by (cases "s w")
  obtain p w2 where run_pair: "scall w = (p, w2)"
    by (cases "scall w")
  have call: "snd (ctStatusCall truth render site s_text s w)
      = add_entries (if truth st then [] else [site_entry error site
          (''Call: '' @ s_text @ '' failed, returned status_code: '' @ render st)]) w1"
    by (simp add: run ctStatusCall_def ctLogError_adds add_entry_def add_entries_def)
  have return_call: "snd (snd (ctStatusReturnCall truth render site scall_text scall retval w))
      = add_entries (if truth (status p) then [] else [site_entry error site
          (''Call: '' @ scall_text @ '' failed, returned status_code: '' @ render (status p))]) w2"
    by (simp add: run_pair ctStatusReturnCall_def ctLogError_adds add_entry_def add_entries_def)
  have throw_call: "snd (ctStatusCallThrow truth render site s_text s w)
      = add_entries (if truth st then [] else [site_entry error site
          (''Call: '' @ s_text @ '' failed, returned status_code: '' @ render st
             @ '', throwing a status_error exception'')]) w1"
    by (simp add: run ctStatusCallThrow_def ctLogError_adds add_entry_def add_entries_def)
  have short: "length (if c then [] else [e]) \<le> 1" for c and e :: log_entry
    by simp
  show ?thesis
    unfolding call return_call throw_call run run_pair snd_conv
    using short by blast
qed

theorem propagation_evaluates_once_witness:
  "user_state (snd (ctStatusCall id render_bool here ''f()'' failing_call start)) = 1
   \<and> user_state (snd (ctStatusCall id render_bool here ''f()'' succeeding_call start)) = 1
   \<and> user_state (snd (snd (ctStatusReturnCall id render_bool here ''g()'' refusing_call 7 start))) = 1
   \<and> user_state (snd (snd (ctStatusReturnCall id render_bool here ''g()'' answer_call 7 start))) = 1
   \<and> user_state (snd (ctStatusCallThrow id render_bool here ''f()'' failing_call start)) = 1
   \<and> user_state (snd (ctStatusCallThrow id render_bool here ''f()'' succeeding_call start)) = 1"
proof -
  have once: "user_state (add_entries es (snd (c start))) = 1"
    if "user_state (snd (c start)) = 1" for es and c :: "nat state \<Rightarrow> 'a \<times> nat state"
    using that by (simp add: add_entries_def)
  have calls: "user_state (snd (failing_call start)) = 1"
    "user_state (snd (succeeding_call start)) = 1"
    "user_state (snd (refusing_call start)) = 1"
    "user_state (snd (answer_call start)) = 1"
    by (simp_all add: failing_call_def succeeding_call_def refusing_call_def answer_call_def
        start_def)
  show ?thesis
    using propagation_evaluates_once [of id render_bool here "''f()''" failing_call start
        "''g()''" refusing_call 7]
      propagation_evaluates_once [of id render_bool here "''f()''" succeeding_call start
        "''g()''" answer_call 7]
    by (auto simp: once calls)
qed

end
